theory Spec2Isabelle
  imports Complex_Main "HOL-Library.Word"
begin

unbundle bit_operations_syntax

section \<open>device-coap-c: the CoAP request pipeline of coap-server.c\<close>

text \<open>
  A shallow embedding of \<^verbatim>\<open>src/c/coap-server.c\<close> (payload decoders, \<^verbatim>\<open>parse_path\<close>,
  \<^verbatim>\<open>data_handler\<close>) and of \<^verbatim>\<open>find_security_mode\<close> and \<^verbatim>\<open>coap_init\<close> of the service's
  entry point.

  Conventions.
  \<^item> A byte is a \<^typ>\<open>char\<close> (8 bits); a request payload is a \<^typ>\<open>char list\<close> whose length
    is the \<^verbatim>\<open>len\<close> the C code receives. A payload may contain the byte 0.
  \<^item> A C string (a \<^verbatim>\<open>char *\<close> read up to its terminator) is the list of its characters
    before the terminator.
  \<^item> Calls to the collaborators (device registry, logger, event pipeline) are recorded,
    in program order, in a list of events that every function returns with its result.
\<close>

subsection \<open>Collaborator calls\<close>

datatype log_level = Error | Info | Debug

datatype 'd iot_data =
    IOT_F64 'd
  | IOT_I32 "32 word"
  | IOT_STRING string

text \<open>
  \<^item> \<open>GetDevice n found\<close>: \<^verbatim>\<open>edgex_get_device_byname (service, n)\<close>; \<open>found\<close> tells whether
    a device handle was returned (acquired).
  \<^item> \<open>FreeDevice d\<close>: \<^verbatim>\<open>edgex_free_device (service, d)\<close>, where \<open>d\<close> is \<open>None\<close> for a null
    pointer and \<open>Some n\<close> for the handle of the device named \<open>n\<close>.
  \<^item> \<open>PostReadings dev res v\<close>: \<^verbatim>\<open>devsdk_post_readings (service, dev, res, results)\<close>.
  \<^item> \<open>Log l fmt\<close>: \<^verbatim>\<open>iot_log_error/info/debug\<close> with format string \<open>fmt\<close>.
\<close>

datatype 'd event =
    GetDevice string bool
  | FreeDevice "string option"
  | PostReadings string string "'d iot_data"
  | Log log_level string

subsection \<open>C library: character classes, C strings, strtol\<close>

definition NUL :: char where
  "NUL = CHR 0x00"

definition c_str :: "char list \<Rightarrow> string" where
  \<comment> \<open>the C string that starts at the first byte of a buffer known to hold a terminator\<close>
  "c_str buf = takeWhile (\<lambda>c. c \<noteq> NUL) buf"

definition isspace :: "char \<Rightarrow> bool" where
  "isspace c \<longleftrightarrow> c = CHR '' '' \<or> (9 \<le> (of_char c :: nat) \<and> (of_char c :: nat) \<le> 13)"

definition isdigit :: "char \<Rightarrow> bool" where
  "isdigit c \<longleftrightarrow> 48 \<le> (of_char c :: nat) \<and> (of_char c :: nat) \<le> 57"

definition digit_val :: "char \<Rightarrow> nat" where
  "digit_val c = of_char c - 48"

fun dec_value_acc :: "nat \<Rightarrow> string \<Rightarrow> nat" where
  "dec_value_acc acc [] = acc"
| "dec_value_acc acc (c # cs) = dec_value_acc (acc * 10 + digit_val c) cs"

definition dec_value :: "string \<Rightarrow> nat" where
  "dec_value ds = dec_value_acc 0 ds"

definition LONG_MAX :: int where "LONG_MAX = 2 ^ 63 - 1"
definition LONG_MIN :: int where "LONG_MIN = - (2 ^ 63)"
definition ERANGE :: nat where "ERANGE = 34"

text \<open>
  The outcome of one call of \<^verbatim>\<open>strtol\<close> or \<^verbatim>\<open>strtod\<close> made with \<^verbatim>\<open>errno\<close> cleared:
  the value returned, the part of the C string from \<^verbatim>\<open>endptr\<close> on, and \<^verbatim>\<open>errno\<close> afterwards.
\<close>

record 'v strto_result =
  sr_value :: 'v
  sr_rest :: string
  sr_errno :: nat

definition split_sign :: "string \<Rightarrow> bool \<times> string" where
  "split_sign s =
     (case s of
        [] \<Rightarrow> (False, s)
      | c # t \<Rightarrow> if c = CHR ''-'' then (True, t)
                 else if c = CHR ''+'' then (False, t)
                 else (False, s))"

definition strtol :: "string \<Rightarrow> int strto_result" where
  \<comment> \<open>\<^verbatim>\<open>strtol (s, &endptr, 10)\<close> with a 64-bit \<^verbatim>\<open>long\<close> (ISO C 7.22.1.4): white space,
      an optional sign, decimal digits; without digits no conversion is performed,
      \<^verbatim>\<open>endptr\<close> is \<^verbatim>\<open>s\<close> and \<^verbatim>\<open>errno\<close> is left alone; a value out of the range of
      \<^verbatim>\<open>long\<close> is clamped and sets \<^verbatim>\<open>ERANGE\<close>\<close>
  "strtol s =
     (let (neg, body) = split_sign (dropWhile isspace s);
          ds = takeWhile isdigit body;
          v = (if neg then - int (dec_value ds) else int (dec_value ds))
      in if ds = [] then \<lparr>sr_value = 0, sr_rest = s, sr_errno = 0\<rparr>
         else if v > LONG_MAX then
           \<lparr>sr_value = LONG_MAX, sr_rest = dropWhile isdigit body, sr_errno = ERANGE\<rparr>
         else if v < LONG_MIN then
           \<lparr>sr_value = LONG_MIN, sr_rest = dropWhile isdigit body, sr_errno = ERANGE\<rparr>
         else \<lparr>sr_value = v, sr_rest = dropWhile isdigit body, sr_errno = 0\<rparr>)"

subsection \<open>Typed payload decoders\<close>

definition INT32_STR_MAXLEN :: nat where "INT32_STR_MAXLEN = 11"
definition FLOAT64_STR_MAXLEN :: nat where "FLOAT64_STR_MAXLEN = 24"
definition INT32_MIN :: int where "INT32_MIN = - 2147483648"
definition INT32_MAX :: int where "INT32_MAX = 2147483647"

text \<open>
  \<^verbatim>\<open>read_data_float64\<close>. The buffer is copied into \<^verbatim>\<open>data_str\<close> and terminated at index
  \<^verbatim>\<open>len\<close>, so \<^verbatim>\<open>strtod\<close> reads \<open>c_str data\<close>. The test \<^verbatim>\<open>*endptr != '\0'\<close> holds exactly when
  characters of that C string are left. The conversion to binary64 itself is the C
  library's; the decoder is parametric in it.
\<close>

definition read_data_float64 ::
  "(string \<Rightarrow> 'd strto_result) \<Rightarrow> char list \<Rightarrow> 'd iot_data option \<times> 'd event list" where
  "read_data_float64 strtod data =
     (if length data > FLOAT64_STR_MAXLEN then (None, [Log Info ''invalid float64 of len %u''])
      else
        let r = strtod (c_str data)
        in if sr_errno r \<noteq> 0 \<or> sr_rest r \<noteq> [] then
             (None, [Log Info ''invalid float64 of len %u''])
           else (Some (IOT_F64 (sr_value r)), []))"

definition read_data_int32 :: "char list \<Rightarrow> 'd iot_data option \<times> 'd event list" where
  "read_data_int32 data =
     (if length data > INT32_STR_MAXLEN then (None, [Log Info ''invalid int32 of len %u''])
      else
        let r = strtol (c_str data)
        in if sr_errno r \<noteq> 0 \<or> sr_rest r \<noteq> [] \<or> sr_value r < INT32_MIN \<or> sr_value r > INT32_MAX
           then (None, [Log Info ''invalid int32 of len %u''])
           else (Some (IOT_I32 (word_of_int (sr_value r))), []))"

definition read_data_string :: "char list \<Rightarrow> 'd iot_data option \<times> 'd event list" where
  \<comment> \<open>the bytes are copied and terminated; the value handed on is that C string\<close>
  "read_data_string data = (Some (IOT_STRING (c_str data)), [])"

subsection \<open>Registry data and CoAP messages\<close>

text \<open>
  The property types of the SDK. The handler names \<open>Edgex_Float64\<close>, \<open>Edgex_Int32\<close> and
  \<open>Edgex_String\<close>; every other enumerator takes the \<^verbatim>\<open>default\<close> branch of its switch.
\<close>

datatype edgex_propertytype =
    Edgex_Int8 | Edgex_Uint8 | Edgex_Int16 | Edgex_Uint16
  | Edgex_Int32 | Edgex_Uint32 | Edgex_Int64 | Edgex_Uint64
  | Edgex_Float32 | Edgex_Float64 | Edgex_Bool | Edgex_String | Edgex_Binary

record edgex_deviceresource =
  res_name :: string
  res_type :: edgex_propertytype

text \<open>
  The linked lists of the SDK (\<^verbatim>\<open>resource->next\<close>, \<^verbatim>\<open>profile->next\<close>) are lists: a profile is
  the list of its \<^verbatim>\<open>device_resources\<close>, and \<open>dev_profile\<close> is the chain that starts at
  \<^verbatim>\<open>device->profile\<close>.
\<close>

type_synonym edgex_deviceprofile = "edgex_deviceresource list"

record edgex_device =
  dev_name :: string
  dev_profile :: "edgex_deviceprofile list"

type_synonym registry = "string \<Rightarrow> edgex_device option"

text \<open>
  What the handler reads of a request and writes of a response:
  \<^item> \<open>pdu_code\<close>: the method of a request, the response code of a response;
  \<^item> \<open>pdu_uri_path\<close>: the text \<^verbatim>\<open>coap_get_uri_path\<close> returns for the request;
  \<^item> \<open>pdu_content_format\<close>: the value of the Content-Format option as stored in the
    \<^verbatim>\<open>uint16_t cf\<close>, \<open>None\<close> where \<^verbatim>\<open>coap_check_option\<close> finds no such option;
  \<^item> \<open>pdu_data\<close>: the payload (\<^verbatim>\<open>coap_get_data\<close>, \<^verbatim>\<open>coap_add_data\<close>), \<open>None\<close> where the
    message has none.
\<close>

record coap_pdu =
  pdu_code :: "8 word"
  pdu_uri_path :: string
  pdu_content_format :: "16 word option"
  pdu_data :: "char list option"

definition COAP_REQUEST_GET :: "8 word" where "COAP_REQUEST_GET = 1"
definition COAP_REQUEST_POST :: "8 word" where "COAP_REQUEST_POST = 2"
definition COAP_REQUEST_PUT :: "8 word" where "COAP_REQUEST_PUT = 3"

definition COAP_RESPONSE_CODE :: "nat \<Rightarrow> 8 word" where
  "COAP_RESPONSE_CODE n = push_bit 5 (of_nat (n div 100)) OR of_nat (n mod 100)"

definition COAP_MEDIATYPE_TEXT_PLAIN :: "16 word" where "COAP_MEDIATYPE_TEXT_PLAIN = 0"
definition COAP_MEDIATYPE_APPLICATION_JSON :: "16 word" where "COAP_MEDIATYPE_APPLICATION_JSON = 50"
definition CONTENT_FORMAT_UNDEFINED :: "16 word" where "CONTENT_FORMAT_UNDEFINED = 65535"

definition RESOURCE_SEG1 :: string where "RESOURCE_SEG1 = ''a1r''"
definition MSG_PAYLOAD_INVALID :: string where "MSG_PAYLOAD_INVALID = ''payload not valid''"

subsection \<open>Path router\<close>

definition strtok :: "string \<Rightarrow> (string \<times> string) option" where
  \<comment> \<open>\<^verbatim>\<open>strtok (_, "/")\<close> on the text from the saved position on: the next token and the
      new saved position, or \<open>None\<close> for a null pointer\<close>
  "strtok s =
     (let s' = dropWhile (\<lambda>c. c = CHR ''/'') s
      in if s' = [] then None
         else Some (takeWhile (\<lambda>c. c \<noteq> CHR ''/'') s',
                    drop 1 (dropWhile (\<lambda>c. c \<noteq> CHR ''/'') s')))"

fun scan_resources :: "edgex_deviceresource list \<Rightarrow> string \<Rightarrow> edgex_deviceresource option" where
  \<comment> \<open>the inner loop: stops at the first resource of that name, or runs off the list\<close>
  "scan_resources [] seg = None"
| "scan_resources (r # rs) seg = (if res_name r = seg then Some r else scan_resources rs seg)"

fun scan_profiles ::
  "edgex_deviceprofile list \<Rightarrow> edgex_deviceresource option \<Rightarrow> string \<Rightarrow>
   edgex_deviceresource option" where
  \<comment> \<open>the outer loop, with the variable \<^verbatim>\<open>resource\<close> as it stands: the \<^verbatim>\<open>break\<close> leaves the
      inner loop only, and each profile assigns \<^verbatim>\<open>resource\<close> anew\<close>
  "scan_profiles [] resource seg = resource"
| "scan_profiles (p # ps) resource seg = scan_profiles ps (scan_resources p seg) seg"

text \<open>
  What the router hands back: the two out-parameters where it returns \<^verbatim>\<open>true\<close>, and the
  calls it made.
\<close>

type_synonym 'd route_result = "(edgex_device \<times> edgex_deviceresource) option \<times> 'd event list"

definition parse_fail :: "edgex_device option \<Rightarrow> 'd event list \<Rightarrow> 'd route_result" where
  \<comment> \<open>the exit with \<^verbatim>\<open>res == false\<close>: \<^verbatim>\<open>edgex_free_device (service, device)\<close>\<close>
  "parse_fail device tr = (None, tr @ [FreeDevice (map_option dev_name device)])"

text \<open>
  \<^verbatim>\<open>parse_path\<close>, with the three rounds of its loop written one inside the other. The
  result is \<open>Some (device, resource)\<close> where the C function returns \<^verbatim>\<open>true\<close>.
\<close>

definition parse_path :: "registry \<Rightarrow> string \<Rightarrow> 'd route_result" where
  "parse_path get_device path =
     (let tr0 = [Log Debug ''URI %s''] in
      case strtok path of
        None \<Rightarrow> parse_fail None (tr0 @ [Log Info ''missing URI segment %u''])
      | Some (seg0, rest0) \<Rightarrow>
          if seg0 \<noteq> RESOURCE_SEG1 then
            parse_fail None (tr0 @ [Log Info ''invalid URI; segment %u''])
          else
            (case strtok rest0 of
               None \<Rightarrow> parse_fail None (tr0 @ [Log Info ''missing URI segment %u''])
             | Some (seg1, rest1) \<Rightarrow>
                 (case get_device seg1 of
                    None \<Rightarrow>
                      parse_fail None
                        (tr0 @ [GetDevice seg1 False, Log Info ''device not found: %s''])
                  | Some device \<Rightarrow>
                      let tr1 = tr0 @ [GetDevice seg1 True] in
                      (case strtok rest1 of
                         None \<Rightarrow>
                           parse_fail (Some device) (tr1 @ [Log Info ''missing URI segment %u''])
                       | Some (seg2, rest2) \<Rightarrow>
                           (case scan_profiles (dev_profile device) None seg2 of
                              None \<Rightarrow>
                                parse_fail (Some device)
                                  (tr1 @ [Log Info ''resource not found: %s''])
                            | Some resource \<Rightarrow>
                                (case strtok rest2 of
                                   Some extra \<Rightarrow>
                                     parse_fail (Some device)
                                       (tr1 @ [Log Info ''extra URI segment''])
                                 | None \<Rightarrow> (Some (device, resource), tr1)))))))"

subsection \<open>Request handler\<close>

datatype 'd payload_step =
    Finish "8 word"  \<comment> \<open>\<^verbatim>\<open>response->code = ...; goto finish\<close>\<close>
  | Data "'d iot_data option"  \<comment> \<open>falls through to the test of \<^verbatim>\<open>iot_data\<close>\<close>

definition read_payload ::
  "(string \<Rightarrow> 'd strto_result) \<Rightarrow> coap_pdu \<Rightarrow> edgex_deviceresource \<Rightarrow>
   'd payload_step \<times> 'd event list" where
  \<comment> \<open>the \<^verbatim>\<open>if (!coap_get_data (...)) ... else ...\<close> of \<^verbatim>\<open>data_handler\<close>, its switch
      written as a chain of tests\<close>
  "read_payload strtod request resource =
     (case pdu_data request of
        None \<Rightarrow> (Data None, [Log Info ''invalid data of len %u''])
      | Some data \<Rightarrow>
          let cf = (case pdu_content_format request of
                      None \<Rightarrow> CONTENT_FORMAT_UNDEFINED
                    | Some v \<Rightarrow> v)
          in if res_type resource = Edgex_Float64 then
               if cf \<noteq> COAP_MEDIATYPE_TEXT_PLAIN then (Finish (COAP_RESPONSE_CODE 415), [])
               else (let (iot_data, tr) = read_data_float64 strtod data in (Data iot_data, tr))
             else if res_type resource = Edgex_Int32 then
               if cf \<noteq> COAP_MEDIATYPE_TEXT_PLAIN then (Finish (COAP_RESPONSE_CODE 415), [])
               else (let (iot_data, tr) = read_data_int32 data in (Data iot_data, tr))
             else if res_type resource = Edgex_String then
               if cf \<noteq> COAP_MEDIATYPE_TEXT_PLAIN \<and> cf \<noteq> COAP_MEDIATYPE_APPLICATION_JSON then
                 (Finish (COAP_RESPONSE_CODE 415), [])
               else (let (iot_data, tr) = read_data_string data in (Data iot_data, tr))
             else
               (Finish (COAP_RESPONSE_CODE 500), [Log Error ''unsupported resource type %d'']))"

text \<open>
  \<^verbatim>\<open>data_handler\<close>: the response as the handler leaves it, and the collaborator calls it made.
  At \<^verbatim>\<open>finish\<close> the handler's own \<^verbatim>\<open>device\<close> is still null when \<^verbatim>\<open>parse_path\<close> failed.
\<close>

definition data_handler ::
  "(string \<Rightarrow> 'd strto_result) \<Rightarrow> registry \<Rightarrow> coap_pdu \<Rightarrow> coap_pdu \<Rightarrow>
   coap_pdu \<times> 'd event list" where
  "data_handler strtod get_device request response =
     (if pdu_code request = COAP_REQUEST_PUT then
        (response\<lparr>pdu_code := COAP_RESPONSE_CODE 405\<rparr>, [])
      else
        case parse_path get_device (pdu_uri_path request) of
          (None, tr) \<Rightarrow>
            (response\<lparr>pdu_code := COAP_RESPONSE_CODE 404\<rparr>, tr @ [FreeDevice None])
        | (Some (device, resource), tr) \<Rightarrow>
            (case read_payload strtod request resource of
               (Finish code, tr2) \<Rightarrow>
                 (response\<lparr>pdu_code := code\<rparr>,
                  tr @ tr2 @ [FreeDevice (Some (dev_name device))])
             | (Data None, tr2) \<Rightarrow>
                 (response\<lparr>pdu_code := COAP_RESPONSE_CODE 400,
                            pdu_data := Some MSG_PAYLOAD_INVALID\<rparr>,
                  tr @ tr2 @ [FreeDevice (Some (dev_name device))])
             | (Data (Some iot_data), tr2) \<Rightarrow>
                 (response\<lparr>pdu_code := COAP_RESPONSE_CODE 204\<rparr>,
                  tr @ tr2 @
                  [PostReadings (dev_name device) (res_name resource) iot_data,
                   FreeDevice (Some (dev_name device))])))"

subsection \<open>Reading a trace\<close>

fun is_acquire :: "'d event \<Rightarrow> bool" where
  "is_acquire (GetDevice n found) = found"
| "is_acquire e = False"

fun is_release :: "'d event \<Rightarrow> bool" where
  "is_release (FreeDevice (Some n)) = True"
| "is_release e = False"

fun is_post :: "'d event \<Rightarrow> bool" where
  "is_post (PostReadings d r v) = True"
| "is_post e = False"

fun is_lookup :: "'d event \<Rightarrow> bool" where
  "is_lookup (GetDevice n found) = True"
| "is_lookup e = False"

fun is_log :: "log_level \<Rightarrow> 'd event \<Rightarrow> bool" where
  "is_log l (Log l' fmt) = (l = l')"
| "is_log l e = False"

definition acquired :: "'d event list \<Rightarrow> nat" where
  "acquired tr = length (filter is_acquire tr)"

definition released :: "'d event list \<Rightarrow> nat" where
  "released tr = length (filter is_release tr)"

definition posted :: "'d event list \<Rightarrow> nat" where
  "posted tr = length (filter is_post tr)"

definition logged :: "log_level \<Rightarrow> 'd event list \<Rightarrow> nat" where
  "logged l tr = length (filter (is_log l) tr)"

subsection \<open>Driver initialisation\<close>

datatype coap_security_mode = SECURITY_MODE_UNKNOWN | SECURITY_MODE_NOSEC | SECURITY_MODE_PSK

record 'k coap_driver =
  security_mode :: coap_security_mode
  psk_key :: "'k option"
  coap_bind_addr :: "string option"

definition COAP_BIND_ADDR_KEY :: string where "COAP_BIND_ADDR_KEY = ''CoapBindAddr''"
definition SECURITY_MODE_KEY :: string where "SECURITY_MODE_KEY = ''SecurityMode''"
definition PSK_KEY_KEY :: string where "PSK_KEY_KEY = ''PskKey''"

definition find_security_mode :: "string \<Rightarrow> coap_security_mode" where
  "find_security_mode mode_text =
     (if mode_text = ''PSK'' then SECURITY_MODE_PSK
      else if mode_text = ''NoSec'' then SECURITY_MODE_NOSEC
      else SECURITY_MODE_UNKNOWN)"

text \<open>
  What a call of \<^verbatim>\<open>coap_init\<close> comes to: it returns, or it stops the process (the
  \<^verbatim>\<open>assert\<close> of \<^verbatim>\<open>find_security_mode\<close> on a null mode text, \<^verbatim>\<open>strlen\<close> of a null key text).
\<close>

datatype 'a outcome = Fault | Returns 'a

type_synonym log_entry = "log_level \<times> string"

definition read_bind_addr ::
  "(string \<rightharpoonup> string) \<Rightarrow> 'k coap_driver \<Rightarrow> log_entry list \<Rightarrow>
   (bool \<times> 'k coap_driver) outcome \<times> log_entry list" where
  \<comment> \<open>the part of \<^verbatim>\<open>coap_init\<close> after its switch\<close>
  "read_bind_addr config driver tr =
     (case config COAP_BIND_ADDR_KEY of
        Some bind_addr \<Rightarrow>
          (Returns (True, driver\<lparr>coap_bind_addr := Some bind_addr\<rparr>),
           tr @ [(Debug, ''Init complete'')])
      | None \<Rightarrow>
          (Returns (False, driver\<lparr>coap_bind_addr := None\<rparr>),
           tr @ [(Error, ''CoAP bind address not in configuration'')]))"

text \<open>
  \<^verbatim>\<open>coap_init\<close>. \<open>config\<close> is the string map of the driver configuration
  (\<^verbatim>\<open>iot_data_string_map_get_string\<close> is the lookup, \<open>None\<close> its null result), and
  \<open>from_base64\<close> stands for \<^verbatim>\<open>iot_data_alloc_array_from_base64\<close>.
\<close>

definition coap_init ::
  "(string \<Rightarrow> 'k option) \<Rightarrow> (string \<rightharpoonup> string) \<Rightarrow> 'k coap_driver \<Rightarrow>
   (bool \<times> 'k coap_driver) outcome \<times> log_entry list" where
  "coap_init from_base64 config driver =
     (case config SECURITY_MODE_KEY of
        None \<Rightarrow> (Fault, [])
      | Some mode_text \<Rightarrow>
          let driver1 = driver\<lparr>security_mode := find_security_mode mode_text\<rparr> in
          (case security_mode driver1 of
             SECURITY_MODE_UNKNOWN \<Rightarrow>
               (Returns (False, driver1\<lparr>psk_key := None\<rparr>), [(Error, ''Unknown security mode'')])
           | SECURITY_MODE_PSK \<Rightarrow>
               (case config PSK_KEY_KEY of
                  None \<Rightarrow> (Fault, [])
                | Some conf_psk_key \<Rightarrow>
                    if length conf_psk_key \<noteq> 0 then
                      read_bind_addr config (driver1\<lparr>psk_key := from_base64 conf_psk_key\<rparr>)
                        [(Info, ''PSK key len %u'')]
                    else
                      (Returns (False, driver1\<lparr>psk_key := None\<rparr>),
                       [(Error, ''PSK key not in configuration'')]))
           | SECURITY_MODE_NOSEC \<Rightarrow> read_bind_addr config (driver1\<lparr>psk_key := None\<rparr>) []))"

text \<open>
  The defaults that \<^verbatim>\<open>main\<close> registers as \<^verbatim>\<open>driver_map\<close> before it starts the service.
\<close>

definition driver_map :: "string \<rightharpoonup> string" where
  "driver_map =
     [COAP_BIND_ADDR_KEY \<mapsto> ''0.0.0.0'', SECURITY_MODE_KEY \<mapsto> ''NoSec'', PSK_KEY_KEY \<mapsto> '''']"

definition driver_config :: "(string \<rightharpoonup> string) \<Rightarrow> (string \<rightharpoonup> string)" where
  \<comment> \<open>Modelled from the spec: the configuration collaborator (\<^verbatim>\<open>devsdk_service_start\<close>, not
      part of the sources) supplies each key with the configured text, or with the
      default of \<open>driver_map\<close> where nothing is configured\<close>
  "driver_config configured = driver_map ++ configured"

subsection \<open>Reference notions used to state the properties\<close>

text \<open>
  The segments of a path, split at every \<open>/\<close>: \<open>''a1r//x''\<close> has the three segments
  \<open>''a1r''\<close>, \<open>''''\<close> and \<open>''x''\<close>.
\<close>

fun segments :: "string \<Rightarrow> string list" where
  "segments [] = [[]]"
| "segments (c # cs) =
     (if c = CHR ''/'' then [] # segments cs
      else (case segments cs of
              [] \<Rightarrow> [[c]]
            | seg # segs \<Rightarrow> (c # seg) # segs))"

definition nonempty_segments :: "string \<Rightarrow> string list" where
  "nonempty_segments path = filter (\<lambda>seg. seg \<noteq> []) (segments path)"

text \<open>
  A path of the routing pattern, in the words of the specification: split at every
  \<open>/\<close> it has exactly three segments, none of them empty, the first of them the fixed
  tag.
\<close>

definition three_segment_path :: "string \<Rightarrow> bool" where
  "three_segment_path path =
     (case segments path of
        [seg0, seg1, seg2] \<Rightarrow> seg0 = RESOURCE_SEG1 \<and> seg1 \<noteq> [] \<and> seg2 \<noteq> []
      | _ \<Rightarrow> False)"

text \<open>
  The same with empty segments left out of the count: the non-empty segments of the path
  are exactly three, the first of them the fixed tag. \<open>''a1r/x/y/''\<close> and \<open>''/a1r//x/y''\<close> are
  such paths, and are not three-segment paths.
\<close>

definition three_token_path :: "string \<Rightarrow> bool" where
  "three_token_path path =
     (case nonempty_segments path of
        [seg0, seg1, seg2] \<Rightarrow> seg0 = RESOURCE_SEG1
      | _ \<Rightarrow> False)"

text \<open>The decimal rendering of an integer, as \<^verbatim>\<open>printf ("%d")\<close> writes it.\<close>

definition digit_char :: "nat \<Rightarrow> char" where
  "digit_char d = char_of (48 + d)"

fun dec_digits :: "nat \<Rightarrow> string" where
  "dec_digits n =
     (if n < 10 then [digit_char n] else dec_digits (n div 10) @ [digit_char (n mod 10)])"

declare dec_digits.simps [simp del]

definition dec_of_int :: "int \<Rightarrow> string" where
  "dec_of_int i = (if i < 0 then CHR ''-'' # dec_digits (nat (- i)) else dec_digits (nat i))"

text \<open>
  The value a decimal string denotes: an optional sign and at least one digit, leading
  zeros allowed; \<open>None\<close> for any other text.
\<close>

definition decimal_value :: "string \<Rightarrow> int option" where
  "decimal_value s =
     (let (neg, ds) = split_sign s
      in if ds \<noteq> [] \<and> list_all isdigit ds
         then Some (if neg then - int (dec_value ds) else int (dec_value ds))
         else None)"

subsection \<open>A call of strtod that converts nothing\<close>

text \<open>
  The decoder and the handler are parametric in \<^verbatim>\<open>strtod\<close>. On a text that holds no
  number, the empty text for one, \<^verbatim>\<open>strtod\<close> performs no conversion: it returns zero
  and \<^verbatim>\<open>endptr\<close> is the start of the text (ISO C 7.22.1.3). What becomes of \<^verbatim>\<open>errno\<close> is the
  library's choice: ISO C leaves it alone, POSIX lets the call set \<^verbatim>\<open>EINVAL\<close>.
  \<open>no_conversion e s\<close> is the outcome of such a call on the text \<open>s\<close> that leaves \<^verbatim>\<open>errno\<close>
  at \<open>e\<close>.
\<close>

definition EINVAL :: nat where "EINVAL = 22"

definition no_conversion :: "nat \<Rightarrow> string \<Rightarrow> 'd::zero strto_result" where
  "no_conversion e s = \<lparr>sr_value = 0, sr_rest = s, sr_errno = e\<rparr>"

subsection \<open>A small registry and requests to run the handler on\<close>

definition temp_resource :: edgex_deviceresource where
  "temp_resource = \<lparr>res_name = ''temp'', res_type = Edgex_Float64\<rparr>"

definition count_resource :: edgex_deviceresource where
  "count_resource = \<lparr>res_name = ''count'', res_type = Edgex_Int32\<rparr>"

definition label_resource :: edgex_deviceresource where
  "label_resource = \<lparr>res_name = ''label'', res_type = Edgex_String\<rparr>"

definition switch_resource :: edgex_deviceresource where
  "switch_resource = \<lparr>res_name = ''switch'', res_type = Edgex_Bool\<rparr>"

definition device_1 :: edgex_device where
  \<comment> \<open>one profile\<close>
  "device_1 =
     \<lparr>dev_name = ''device-1'',
      dev_profile = [[temp_resource, count_resource, label_resource, switch_resource]]\<rparr>"

definition device_2 :: edgex_device where
  \<comment> \<open>a chain of two profiles; \<open>temp\<close> is a resource of the first one only\<close>
  "device_2 =
     \<lparr>dev_name = ''device-2'', dev_profile = [[temp_resource], [count_resource]]\<rparr>"

definition example_registry :: registry where
  "example_registry n =
     (if n = ''device-1'' then Some device_1
      else if n = ''device-2'' then Some device_2
      else None)"

definition post_request :: "string \<Rightarrow> 16 word option \<Rightarrow> char list option \<Rightarrow> coap_pdu" where
  "post_request path cf data =
     \<lparr>pdu_code = COAP_REQUEST_POST, pdu_uri_path = path, pdu_content_format = cf,
      pdu_data = data\<rparr>"

definition put_request :: "string \<Rightarrow> 16 word option \<Rightarrow> char list option \<Rightarrow> coap_pdu" where
  "put_request path cf data =
     \<lparr>pdu_code = COAP_REQUEST_PUT, pdu_uri_path = path, pdu_content_format = cf,
      pdu_data = data\<rparr>"

definition empty_response :: coap_pdu where
  "empty_response =
     \<lparr>pdu_code = 0, pdu_uri_path = [], pdu_content_format = None, pdu_data = None\<rparr>"

text \<open>
  Where a run of the handler does not reach \<^verbatim>\<open>strtod\<close> (a request that is rejected before
  the decoding, a resource that is not of kind Float64), the examples pass \<open>undefined\<close> for
  it, with \<^typ>\<open>real\<close> for the type of its values: what they state of the run holds
  whatever the library's \<^verbatim>\<open>strtod\<close> does.
\<close>

definition blank_driver :: "string coap_driver" where
  "blank_driver =
     \<lparr>security_mode = SECURITY_MODE_UNKNOWN, psk_key = None, coap_bind_addr = None\<rparr>"

section \<open>Properties\<close>

subsection \<open>Decimal strings and strtol\<close>

lemma of_char_digit_char: "d < 10 \<Longrightarrow> (of_char (digit_char d) :: nat) = 48 + d"
  by (simp add: digit_char_def)

lemma isdigit_digit_char: "d < 10 \<Longrightarrow> isdigit (digit_char d)"
  by (simp add: isdigit_def of_char_digit_char)

lemma digit_val_digit_char: "d < 10 \<Longrightarrow> digit_val (digit_char d) = d"
  by (simp add: digit_val_def of_char_digit_char)

lemma dec_value_acc_snoc:
  "dec_value_acc acc (xs @ [c]) = dec_value_acc acc xs * 10 + digit_val c"
  by (induction xs arbitrary: acc) simp_all

lemma dec_value_dec_digits: "dec_value (dec_digits n) = n"
proof (induction n rule: dec_digits.induct)
  case (1 n)
  show ?case
  proof (cases "n < 10")
    case True
    then show ?thesis
      by (subst dec_digits.simps) (simp add: dec_value_def digit_val_digit_char)
  next
    case False
    with 1 have "dec_value (dec_digits (n div 10)) = n div 10" by simp
    with False show ?thesis
      by (subst dec_digits.simps) (simp add: dec_value_def dec_value_acc_snoc digit_val_digit_char)
  qed
qed

lemma dec_digits_all_digits: "list_all isdigit (dec_digits n)"
proof (induction n rule: dec_digits.induct)
  case (1 n)
  then show ?case
    by (subst dec_digits.simps) (simp add: isdigit_digit_char)
qed

lemma dec_digits_nonempty: "dec_digits n \<noteq> []"
  by (subst dec_digits.simps) simp

lemma length_dec_digits: "n < 10 ^ k \<Longrightarrow> 0 < k \<Longrightarrow> length (dec_digits n) \<le> k"
proof (induction n arbitrary: k rule: dec_digits.induct)
  case (1 n)
  show ?case
  proof (cases "n < 10")
    case True
    with 1(3) show ?thesis by (subst dec_digits.simps) simp
  next
    case False
    obtain j where k: "k = Suc j" using \<open>0 < k\<close> by (cases k) auto
    have j: "0 < j" using False 1(2) k by (cases j) auto
    have "n div 10 < 10 ^ j" using 1(2) k by (simp add: less_mult_imp_div_less)
    with 1(1)[OF False _ j] have "length (dec_digits (n div 10)) \<le> j" by simp
    with False k show ?thesis by (subst dec_digits.simps) simp
  qed
qed

lemma isdigit_not_isspace: "isdigit c \<Longrightarrow> \<not> isspace c"
  by (auto simp: isdigit_def isspace_def)

lemma isdigit_not_sign: "isdigit c \<Longrightarrow> c \<noteq> CHR ''-'' \<and> c \<noteq> CHR ''+''"
  by (auto simp: isdigit_def)

lemma isdigit_not_NUL: "isdigit c \<Longrightarrow> c \<noteq> NUL"
  by (auto simp: isdigit_def NUL_def)

lemma c_str_id: "NUL \<notin> set s \<Longrightarrow> c_str s = s"
  by (auto simp: c_str_def)

lemma takeWhile_isdigit_all: "list_all isdigit ds \<Longrightarrow> takeWhile isdigit ds = ds"
  by (simp add: list_all_iff)

lemma dropWhile_isdigit_all: "list_all isdigit ds \<Longrightarrow> dropWhile isdigit ds = []"
  by (simp add: list_all_iff)

lemma decimal_value_shape:
  assumes "decimal_value s = Some v"
  obtains neg ds where "split_sign s = (neg, ds)" "ds \<noteq> []" "list_all isdigit ds"
    "v = (if neg then - int (dec_value ds) else int (dec_value ds))"
  using assms by (auto simp: decimal_value_def split: prod.splits if_splits)

lemma decimal_no_leading_space:
  assumes "split_sign s = (neg, ds)" "ds \<noteq> []" "list_all isdigit ds"
  shows "dropWhile isspace s = s"
proof (cases s)
  case Nil
  then show ?thesis by simp
next
  case (Cons c t)
  have "\<not> isspace c"
  proof (cases "c = CHR ''-'' \<or> c = CHR ''+''")
    case True
    then show ?thesis by (auto simp: isspace_def)
  next
    case False
    with assms Cons have "isdigit c" by (auto simp: split_sign_def)
    then show ?thesis by (rule isdigit_not_isspace)
  qed
  with Cons show ?thesis by simp
qed

lemma decimal_no_NUL:
  assumes "split_sign s = (neg, ds)" "list_all isdigit ds"
  shows "NUL \<notin> set s"
proof -
  have "NUL \<notin> set ds" using assms(2) isdigit_not_NUL by (auto simp: list_all_iff)
  moreover have "set s \<subseteq> insert (CHR ''-'') (insert (CHR ''+'') (set ds))"
    using assms(1) by (cases s) (auto simp: split_sign_def split: if_splits)
  ultimately show ?thesis by (auto simp: NUL_def)
qed

lemma strtol_decimal:
  assumes "decimal_value s = Some v"
  shows "strtol s =
     (if v > LONG_MAX then \<lparr>sr_value = LONG_MAX, sr_rest = [], sr_errno = ERANGE\<rparr>
      else if v < LONG_MIN then \<lparr>sr_value = LONG_MIN, sr_rest = [], sr_errno = ERANGE\<rparr>
      else \<lparr>sr_value = v, sr_rest = [], sr_errno = 0\<rparr>)"
proof -
  from assms obtain neg ds where sh: "split_sign s = (neg, ds)" "ds \<noteq> []" "list_all isdigit ds"
    "v = (if neg then - int (dec_value ds) else int (dec_value ds))"
    by (rule decimal_value_shape)
  have "dropWhile isspace s = s" using sh(1-3) by (rule decimal_no_leading_space)
  with sh show ?thesis
    by (simp add: strtol_def takeWhile_isdigit_all dropWhile_isdigit_all)
qed

lemma c_str_decimal: "decimal_value s = Some v \<Longrightarrow> c_str s = s"
  by (erule decimal_value_shape) (simp add: c_str_id decimal_no_NUL)

lemma read_data_int32_out_of_range:
  assumes "decimal_value s = Some v" "v < INT32_MIN \<or> INT32_MAX < v"
  shows "fst (read_data_int32 s) = None"
  using assms
  by (auto simp: read_data_int32_def Let_def c_str_decimal strtol_decimal
        LONG_MAX_def LONG_MIN_def INT32_MIN_def INT32_MAX_def ERANGE_def)

lemma read_data_int32_in_range:
  assumes "decimal_value s = Some v" "INT32_MIN \<le> v" "v \<le> INT32_MAX"
    "length s \<le> INT32_STR_MAXLEN"
  shows "read_data_int32 s = (Some (IOT_I32 (word_of_int v)), [])"
  using assms
  by (auto simp: read_data_int32_def Let_def c_str_decimal strtol_decimal
        LONG_MAX_def LONG_MIN_def INT32_MIN_def INT32_MAX_def)

lemma split_sign_digits:
  "ds \<noteq> [] \<Longrightarrow> list_all isdigit ds \<Longrightarrow> split_sign ds = (False, ds)"
  by (cases ds) (auto simp: split_sign_def dest: isdigit_not_sign)

lemma split_sign_minus: "split_sign (CHR ''-'' # t) = (True, t)"
  by (simp add: split_sign_def)

lemma decimal_value_dec_of_int: "decimal_value (dec_of_int i) = Some i"
  by (simp add: decimal_value_def dec_of_int_def split_sign_minus split_sign_digits
        dec_digits_nonempty dec_digits_all_digits dec_value_dec_digits)

lemma length_dec_of_int:
  assumes "INT32_MIN \<le> i" "i \<le> INT32_MAX"
  shows "length (dec_of_int i) \<le> INT32_STR_MAXLEN"
proof -
  have "nat \<bar>i\<bar> < 10 ^ 10" using assms by (simp add: INT32_MIN_def INT32_MAX_def)
  then have "length (dec_digits (nat \<bar>i\<bar>)) \<le> 10" by (rule length_dec_digits) simp
  then show ?thesis by (auto simp: dec_of_int_def INT32_STR_MAXLEN_def abs_if split: if_splits)
qed

lemma sint_int32:
  "INT32_MIN \<le> i \<Longrightarrow> i \<le> INT32_MAX \<Longrightarrow> sint (word_of_int i :: 32 word) = i"
  by (simp add: INT32_MIN_def INT32_MAX_def sint_sbintrunc' signed_take_bit_int_eq_self)

text \<open>
  Claim C5. Every integer of \<open>[-2147483648, 2147483647]\<close>, written as its decimal string,
  is decoded by \<^verbatim>\<open>read_data_int32\<close> to exactly that value, without a log entry; and every
  decimal string (optional sign, digits, of any length) that denotes a value outside that
  range is refused, although \<^verbatim>\<open>strtol\<close> itself converts it whenever it fits a \<^verbatim>\<open>long\<close>.
\<close>

theorem int32_roundtrip:
  "(INT32_MIN \<le> i \<and> i \<le> INT32_MAX \<longrightarrow>
      read_data_int32 (dec_of_int i) = (Some (IOT_I32 (word_of_int i)), []) \<and>
      sint (word_of_int i :: 32 word) = i) \<and>
   (decimal_value s = Some v \<and> (v < INT32_MIN \<or> INT32_MAX < v) \<longrightarrow>
      fst (read_data_int32 s) = None)"
  using read_data_int32_in_range [OF decimal_value_dec_of_int]
    length_dec_of_int sint_int32 read_data_int32_out_of_range
  by blast

theorem int32_roundtrip_witness:
  "INT32_MIN \<le> - 2147483648 \<and> - 2147483648 \<le> INT32_MAX \<and>
   dec_of_int (- 2147483648) = ''-2147483648'' \<and>
   (read_data_int32 ''-2147483648'' :: real iot_data option \<times> real event list)
      = (Some (IOT_I32 (word_of_int (- 2147483648))), []) \<and>
   sint (word_of_int (- 2147483648) :: 32 word) = - 2147483648 \<and>
   decimal_value ''2147483648'' = Some 2147483648 \<and> INT32_MAX < 2147483648 \<and>
   fst (read_data_int32 ''2147483648'' :: real iot_data option \<times> real event list) = None"
proof -
  have r: "INT32_MIN \<le> - 2147483648 \<and> - 2147483648 \<le> INT32_MAX \<and> INT32_MAX < 2147483648"
    by (simp add: INT32_MIN_def INT32_MAX_def)
  have d: "dec_of_int (- 2147483648) = ''-2147483648''"
    by (simp add: dec_of_int_def dec_digits.simps digit_char_def char_of_def bit_0)
  have v: "decimal_value ''2147483648'' = Some 2147483648"
    by (simp add: decimal_value_def split_sign_def isdigit_def dec_value_def digit_val_def)
  show ?thesis
    using r d v
      int32_roundtrip [where i = "- 2147483648" and s = "''2147483648''" and v = 2147483648
        and ?'a = real]
    by simp
qed

subsection \<open>The tokenizer and the segments of a path\<close>

lemma segments_unfold:
  "segments s =
     takeWhile (\<lambda>c. c \<noteq> CHR ''/'') s #
     (case dropWhile (\<lambda>c. c \<noteq> CHR ''/'') s of [] \<Rightarrow> [] | x # r \<Rightarrow> segments r)"
  by (induction s) (auto split: list.splits)

lemma nonempty_segments_skip_slashes:
  "nonempty_segments (dropWhile (\<lambda>c. c = CHR ''/'') s) = nonempty_segments s"
  by (induction s) (simp_all add: nonempty_segments_def)

lemma strtok_None_segments:
  assumes "strtok s = None"
  shows "nonempty_segments s = []"
proof -
  from assms have d: "dropWhile (\<lambda>c. c = CHR ''/'') s = []"
    by (simp add: strtok_def Let_def split: if_splits)
  have "nonempty_segments s = nonempty_segments (dropWhile (\<lambda>c. c = CHR ''/'') s)"
    by (simp only: nonempty_segments_skip_slashes)
  also have "\<dots> = nonempty_segments []" by (simp only: d)
  finally show ?thesis by (simp add: nonempty_segments_def)
qed

lemma strtok_Some_segments:
  assumes "strtok s = Some (t, r)"
  shows "nonempty_segments s = t # nonempty_segments r"
proof -
  define s' where "s' = dropWhile (\<lambda>c. c = CHR ''/'') s"
  from assms have ne: "s' \<noteq> []"
    and t: "t = takeWhile (\<lambda>c. c \<noteq> CHR ''/'') s'"
    and r: "r = drop 1 (dropWhile (\<lambda>c. c \<noteq> CHR ''/'') s')"
    by (auto simp: strtok_def Let_def s'_def split: if_splits)
  have "hd s' \<noteq> CHR ''/''"
    using ne hd_dropWhile [of "\<lambda>c. c = CHR ''/''" s] by (simp add: s'_def)
  with ne t have tne: "t \<noteq> []" by (cases s') auto
  have seg: "segments s' =
      t # (case dropWhile (\<lambda>c. c \<noteq> CHR ''/'') s' of [] \<Rightarrow> [] | x # r' \<Rightarrow> segments r')"
    unfolding t by (rule segments_unfold)
  have "nonempty_segments s = nonempty_segments s'"
    by (simp only: s'_def nonempty_segments_skip_slashes)
  also have "\<dots> = t # nonempty_segments r"
  proof (cases "dropWhile (\<lambda>c. c \<noteq> CHR ''/'') s'")
    case Nil
    have "segments s' = [t]" using seg unfolding Nil by simp
    moreover have "r = []" using r unfolding Nil by simp
    ultimately show ?thesis using tne by (simp add: nonempty_segments_def)
  next
    case (Cons x r')
    have "segments s' = t # segments r'" using seg unfolding Cons by simp
    moreover have "r = r'" using r unfolding Cons by simp
    ultimately show ?thesis using tne by (simp add: nonempty_segments_def)
  qed
  finally show ?thesis .
qed

subsection \<open>Path router\<close>

lemma scan_profiles_last: "scan_profiles (ps @ [p]) resource seg = scan_resources p seg"
  by (induction ps arbitrary: resource) simp_all

lemma parse_path_Some_segments:
  assumes "parse_path get_device path = (Some (device, resource), tr)"
  shows "\<exists>seg1 seg2. nonempty_segments path = [RESOURCE_SEG1, seg1, seg2] \<and>
           get_device seg1 = Some device \<and>
           scan_profiles (dev_profile device) None seg2 = Some resource \<and>
           tr = [Log Debug ''URI %s'', GetDevice seg1 True]"
  using assms
  by (auto simp: parse_path_def parse_fail_def Let_def
        dest!: strtok_Some_segments strtok_None_segments
        split: option.splits prod.splits if_splits)

lemma parse_path_None_trace:
  assumes "parse_path get_device path = (None, tr)"
  shows "released tr = acquired tr \<and> acquired tr \<le> 1 \<and> posted tr = 0"
  using assms
  by (auto simp: parse_path_def parse_fail_def Let_def released_def acquired_def posted_def
        split: option.splits prod.splits if_splits)

lemma three_segment_path_tokens:
  assumes "three_segment_path path"
  shows "three_token_path path"
  using assms
  by (auto simp: three_segment_path_def three_token_path_def nonempty_segments_def
        RESOURCE_SEG1_def split: list.splits)

text \<open>
  Claim C4 (as stated, false). Split at every \<open>/\<close>, the path \<open>a1r/device-1/temp/\<close> has four
  segments, the last of them empty: it does not consist of exactly three non-empty
  segments. The router skips the empty segment with the tokenizer and routes the path to
  \<open>device-1\<close> and \<open>temp\<close>.
\<close>

theorem parse_path_routes_trailing_slash_counterexample:
  "segments ''a1r/device-1/temp/'' = [''a1r'', ''device-1'', ''temp'', ''''] \<and>
   \<not> three_segment_path ''a1r/device-1/temp/'' \<and>
   (parse_path example_registry ''a1r/device-1/temp/'' :: real route_result) =
     (Some (device_1, temp_resource), [Log Debug ''URI %s'', GetDevice ''device-1'' True])"
  by (simp add: three_segment_path_def parse_path_def parse_fail_def strtok_def
        RESOURCE_SEG1_def example_registry_def device_1_def temp_resource_def
        count_resource_def label_resource_def switch_resource_def)

text \<open>
  Claim C4, amended. Empty segments are skipped, not counted. A path whose non-empty
  segments are not exactly three with the fixed tag first (too few, too many, as with a
  non-empty segment after a valid three, or another tag) is a routing failure, and when
  the router returns it has released every device handle it acquired. Every path that
  is not a three-segment path and stays so when its empty segments are dropped is among
  these (\<open>three_segment_path_tokens\<close>).
\<close>

theorem parse_path_rejects_other_paths:
  assumes "\<not> three_token_path path"
  shows "case (parse_path get_device path :: 'd route_result) of
           (res, tr) \<Rightarrow> res = None \<and> released tr = acquired tr"
proof (cases "parse_path get_device path :: 'd route_result")
  case (Pair res tr)
  show ?thesis
  proof (cases res)
    case None
    with Pair parse_path_None_trace [of get_device path tr] show ?thesis by simp
  next
    case (Some dr)
    obtain device resource where "dr = (device, resource)" by (cases dr)
    with Pair Some have "parse_path get_device path = (Some (device, resource), tr)" by simp
    from parse_path_Some_segments [OF this] have "three_token_path path"
      by (auto simp: three_token_path_def)
    with assms show ?thesis by simp
  qed
qed

lemma nonempty_segments_extra:
  "nonempty_segments ''a1r/device-1/temp/x'' = [''a1r'', ''device-1'', ''temp'', ''x'']"
  by (simp add: nonempty_segments_def)

theorem parse_path_rejects_other_paths_witness:
  "\<not> three_token_path ''a1r/device-1/temp/x'' \<and>
   (parse_path example_registry ''a1r/device-1/temp/x'' :: real route_result) =
     (None, [Log Debug ''URI %s'', GetDevice ''device-1'' True, Log Info ''extra URI segment'',
             FreeDevice (Some ''device-1'')]) \<and>
   released [Log Debug ''URI %s'', GetDevice ''device-1'' True, Log Info ''extra URI segment'',
             FreeDevice (Some ''device-1'') :: real event] = 1 \<and>
   acquired [Log Debug ''URI %s'', GetDevice ''device-1'' True, Log Info ''extra URI segment'',
             FreeDevice (Some ''device-1'') :: real event] = 1"
proof -
  have n: "\<not> three_token_path ''a1r/device-1/temp/x''"
    by (simp add: three_token_path_def nonempty_segments_def)
  have p: "(parse_path example_registry ''a1r/device-1/temp/x'' :: real route_result) =
     (None, [Log Debug ''URI %s'', GetDevice ''device-1'' True, Log Info ''extra URI segment'',
             FreeDevice (Some ''device-1'')])"
    by (simp add: parse_path_def parse_fail_def strtok_def RESOURCE_SEG1_def example_registry_def
          device_1_def temp_resource_def count_resource_def label_resource_def
          switch_resource_def)
  show ?thesis
    using n p parse_path_rejects_other_paths [OF n, of example_registry, where ?'d = real]
    by (simp add: released_def acquired_def)
qed

lemma strtok_of_segments:
  "nonempty_segments s = [] \<Longrightarrow> strtok s = None"
  "nonempty_segments s = t # ts \<Longrightarrow> \<exists>r. strtok s = Some (t, r) \<and> nonempty_segments r = ts"
proof -
  show "nonempty_segments s = [] \<Longrightarrow> strtok s = None"
    by (cases "strtok s") (auto dest: strtok_Some_segments)
  show "nonempty_segments s = t # ts \<Longrightarrow> \<exists>r. strtok s = Some (t, r) \<and> nonempty_segments r = ts"
    by (cases "strtok s") (auto dest: strtok_None_segments strtok_Some_segments)
qed

text \<open>
  What the router does with a path of the routing pattern: the device is looked up by
  the second segment, and the resource is the one the scan of the chain ends with.
\<close>

lemma parse_path_three_segments:
  assumes "nonempty_segments path = [RESOURCE_SEG1, seg1, seg2]"
    and "get_device seg1 = Some device"
    and "scan_profiles (dev_profile device) None seg2 = Some resource"
  shows "parse_path get_device path =
           (Some (device, resource), [Log Debug ''URI %s'', GetDevice seg1 True])"
proof -
  from strtok_of_segments(2) [OF assms(1)] obtain r0
    where r0: "strtok path = Some (RESOURCE_SEG1, r0)" "nonempty_segments r0 = [seg1, seg2]"
    by blast
  from strtok_of_segments(2) [OF r0(2)] obtain r1
    where r1: "strtok r0 = Some (seg1, r1)" "nonempty_segments r1 = [seg2]"
    by blast
  from strtok_of_segments(2) [OF r1(2)] obtain r2
    where r2: "strtok r1 = Some (seg2, r2)" "nonempty_segments r2 = []"
    by blast
  from strtok_of_segments(1) [OF r2(2)] have r3: "strtok r2 = None" .
  from r0(1) r1(1) r2(1) r3 assms(2,3) show ?thesis
    by (simp add: parse_path_def)
qed

lemma parse_path_match_in_last_profile:
  assumes "nonempty_segments path = [RESOURCE_SEG1, seg1, seg2]"
    and "get_device seg1 = Some device"
    and "dev_profile device = ps @ [p]"
    and "scan_resources p seg2 = Some resource"
  shows "parse_path get_device path =
           (Some (device, resource), [Log Debug ''URI %s'', GetDevice seg1 True])"
  using assms by (intro parse_path_three_segments) (simp_all add: scan_profiles_last)

lemma parse_path_no_match_in_last_profile:
  assumes "nonempty_segments path = [RESOURCE_SEG1, seg1, seg2]"
    and "get_device seg1 = Some device"
    and "dev_profile device = ps @ [p]"
    and "scan_resources p seg2 = None"
  shows "fst (parse_path get_device path) = None"
proof (cases "parse_path get_device path :: 'a route_result")
  case (Pair res tr)
  show ?thesis
  proof (cases res)
    case None
    with Pair show ?thesis by simp
  next
    case (Some dr)
    obtain d r where "dr = (d, r)" by (cases dr)
    with Pair Some have "parse_path get_device path = (Some (d, r), tr)" by simp
    from parse_path_Some_segments [OF this] assms show ?thesis
      by (auto simp: scan_profiles_last)
  qed
qed

text \<open>
  Claim C1 (the code departs from it). \<open>device_2\<close> has the chain of profiles
  \<open>[[temp], [count]]\<close>: a resource named \<open>temp\<close> is in its first profile. For the path
  \<open>a1r/device-2/temp\<close> the router finds the device and then reports the resource as not
  found: the \<^verbatim>\<open>break\<close> at the match leaves the scan of one profile only, and the scan of the
  next profile assigns \<^verbatim>\<open>resource\<close> anew. The router succeeds exactly for a match in the
  last profile of the chain (\<open>parse_path_match_in_last_profile\<close>,
  \<open>parse_path_no_match_in_last_profile\<close>).
\<close>

theorem parse_path_loses_match_in_earlier_profile:
  "dev_profile device_2 = [[temp_resource], [count_resource]] \<and>
   res_name temp_resource = ''temp'' \<and>
   example_registry ''device-2'' = Some device_2 \<and>
   (parse_path example_registry ''a1r/device-2/temp'' :: real route_result) =
     (None, [Log Debug ''URI %s'', GetDevice ''device-2'' True,
             Log Info ''resource not found: %s'', FreeDevice (Some ''device-2'')])"
  by (simp add: parse_path_def parse_fail_def strtok_def RESOURCE_SEG1_def example_registry_def
        device_2_def temp_resource_def count_resource_def)

subsection \<open>Request handler\<close>

lemma response_code_values:
  "COAP_RESPONSE_CODE 204 = 68" "COAP_RESPONSE_CODE 400 = 128" "COAP_RESPONSE_CODE 404 = 132"
  "COAP_RESPONSE_CODE 405 = 133" "COAP_RESPONSE_CODE 415 = 143" "COAP_RESPONSE_CODE 500 = 160"
  by (simp_all add: COAP_RESPONSE_CODE_def)

lemma parse_path_None_logs:
  assumes "parse_path get_device path = (None, tr)"
  shows "logged Info tr = 1 \<and> logged Error tr = 0"
  using assms
  by (auto simp: parse_path_def parse_fail_def Let_def logged_def
        split: option.splits prod.splits if_splits)

lemma parse_path_Some_trace:
  assumes "parse_path get_device path = (Some (device, resource), tr)"
  shows "acquired tr = 1 \<and> released tr = 0 \<and> posted tr = 0 \<and>
         logged Info tr = 0 \<and> logged Error tr = 0"
  using parse_path_Some_segments [OF assms]
  by (auto simp: acquired_def released_def posted_def logged_def)

lemma read_data_float64_cases:
  "(\<exists>v. read_data_float64 strtod data = (Some v, [])) \<or>
   read_data_float64 strtod data = (None, [Log Info ''invalid float64 of len %u''])"
  by (simp add: read_data_float64_def Let_def)

lemma read_data_int32_cases:
  "(\<exists>v. (read_data_int32 data :: 'd iot_data option \<times> 'd event list) = (Some v, [])) \<or>
   (read_data_int32 data :: 'd iot_data option \<times> 'd event list) =
     (None, [Log Info ''invalid int32 of len %u''])"
  by (simp add: read_data_int32_def Let_def)

lemma read_payload_present:
  fixes strtod :: "string \<Rightarrow> 'd strto_result"
  assumes "pdu_data request = Some data"
  shows "read_payload strtod request resource = (Finish (COAP_RESPONSE_CODE 415), []) \<or>
         read_payload strtod request resource =
           (Finish (COAP_RESPONSE_CODE 500), [Log Error ''unsupported resource type %d'']) \<or>
         (\<exists>fmt. read_payload strtod request resource = (Data None, [Log Info fmt])) \<or>
         (\<exists>v. read_payload strtod request resource = (Data (Some v), []))"
  using assms read_data_float64_cases [of strtod data]
    read_data_int32_cases [of data, where ?'d = 'd]
  by (auto simp: read_payload_def read_data_string_def Let_def)

lemma read_payload_cases:
  obtains
    (absent) "pdu_data request = None"
      "read_payload strtod request resource = (Data None, [Log Info ''invalid data of len %u''])"
  | (media) "pdu_data request \<noteq> None"
      "read_payload strtod request resource = (Finish (COAP_RESPONSE_CODE 415), [])"
  | (kind) "pdu_data request \<noteq> None"
      "read_payload strtod request resource =
         (Finish (COAP_RESPONSE_CODE 500), [Log Error ''unsupported resource type %d''])"
  | (invalid) fmt where "pdu_data request \<noteq> None"
      "read_payload strtod request resource = (Data None, [Log Info fmt])"
  | (decoded) v where "pdu_data request \<noteq> None"
      "read_payload strtod request resource = (Data (Some v), [])"
proof (cases "pdu_data request")
  case None
  then show ?thesis by (intro absent) (simp_all add: read_payload_def)
next
  case (Some data)
  then have "pdu_data request \<noteq> None" by simp
  with read_payload_present [OF Some, of strtod resource] media kind invalid decoded
  show ?thesis by blast
qed

text \<open>Every way through the handler: the response it leaves and the calls it made.\<close>

lemma data_handler_cases:
  obtains
    (put) "pdu_code request = COAP_REQUEST_PUT"
      "data_handler strtod get_device request response =
         (response\<lparr>pdu_code := COAP_RESPONSE_CODE 405\<rparr>, [])"
  | (unrouted) tr where "pdu_code request \<noteq> COAP_REQUEST_PUT"
      "parse_path get_device (pdu_uri_path request) = (None, tr)"
      "data_handler strtod get_device request response =
         (response\<lparr>pdu_code := COAP_RESPONSE_CODE 404\<rparr>, tr @ [FreeDevice None])"
  | (absent) device resource tr where "pdu_code request \<noteq> COAP_REQUEST_PUT"
      "parse_path get_device (pdu_uri_path request) = (Some (device, resource), tr)"
      "pdu_data request = None"
      "data_handler strtod get_device request response =
         (response\<lparr>pdu_code := COAP_RESPONSE_CODE 400, pdu_data := Some MSG_PAYLOAD_INVALID\<rparr>,
          tr @ [Log Info ''invalid data of len %u'', FreeDevice (Some (dev_name device))])"
  | (media) device resource tr where "pdu_code request \<noteq> COAP_REQUEST_PUT"
      "parse_path get_device (pdu_uri_path request) = (Some (device, resource), tr)"
      "pdu_data request \<noteq> None"
      "data_handler strtod get_device request response =
         (response\<lparr>pdu_code := COAP_RESPONSE_CODE 415\<rparr>,
          tr @ [FreeDevice (Some (dev_name device))])"
  | (kind) device resource tr where "pdu_code request \<noteq> COAP_REQUEST_PUT"
      "parse_path get_device (pdu_uri_path request) = (Some (device, resource), tr)"
      "pdu_data request \<noteq> None"
      "data_handler strtod get_device request response =
         (response\<lparr>pdu_code := COAP_RESPONSE_CODE 500\<rparr>,
          tr @ [Log Error ''unsupported resource type %d'', FreeDevice (Some (dev_name device))])"
  | (invalid) device resource tr fmt where "pdu_code request \<noteq> COAP_REQUEST_PUT"
      "parse_path get_device (pdu_uri_path request) = (Some (device, resource), tr)"
      "pdu_data request \<noteq> None"
      "data_handler strtod get_device request response =
         (response\<lparr>pdu_code := COAP_RESPONSE_CODE 400, pdu_data := Some MSG_PAYLOAD_INVALID\<rparr>,
          tr @ [Log Info fmt, FreeDevice (Some (dev_name device))])"
  | (posted) device resource tr v where "pdu_code request \<noteq> COAP_REQUEST_PUT"
      "parse_path get_device (pdu_uri_path request) = (Some (device, resource), tr)"
      "pdu_data request \<noteq> None"
      "data_handler strtod get_device request response =
         (response\<lparr>pdu_code := COAP_RESPONSE_CODE 204\<rparr>,
          tr @ [PostReadings (dev_name device) (res_name resource) v,
                FreeDevice (Some (dev_name device))])"
proof (cases "pdu_code request = COAP_REQUEST_PUT")
  case True
  then show ?thesis by (intro put) (simp_all add: data_handler_def)
next
  case notput: False
  show ?thesis
  proof (cases "parse_path get_device (pdu_uri_path request) :: 'a route_result")
    case (Pair res tr)
    show ?thesis
    proof (cases res)
      case None
      with notput Pair show ?thesis by (intro unrouted [of tr]) (simp_all add: data_handler_def)
    next
      case (Some dr)
      obtain device resource where dr: "dr = (device, resource)" by (cases dr)
      note routed = Pair [unfolded Some dr]
      show ?thesis
      proof (cases rule: read_payload_cases [of request strtod resource])
        case absent
        with notput routed show ?thesis
          by (intro that(3) [of device resource tr]) (simp_all add: data_handler_def)
      next
        case media
        with notput routed show ?thesis
          by (intro that(4) [of device resource tr]) (simp_all add: data_handler_def)
      next
        case kind
        with notput routed show ?thesis
          by (intro that(5) [of device resource tr]) (simp_all add: data_handler_def)
      next
        case (invalid fmt)
        with notput routed show ?thesis
          by (intro that(6) [of device resource tr fmt]) (simp_all add: data_handler_def)
      next
        case (decoded v)
        with notput routed show ?thesis
          by (intro that(7) [of device resource tr v]) (simp_all add: data_handler_def)
      qed
    qed
  qed
qed

lemma trace_counts_append:
  "acquired (a @ b) = acquired a + acquired b"
  "released (a @ b) = released a + released b"
  "posted (a @ b) = posted a + posted b"
  "logged l (a @ b) = logged l a + logged l b"
  by (simp_all add: acquired_def released_def posted_def logged_def)

lemma trace_counts_Cons:
  "acquired (e # tr) = (if is_acquire e then 1 else 0) + acquired tr"
  "released (e # tr) = (if is_release e then 1 else 0) + released tr"
  "posted (e # tr) = (if is_post e then 1 else 0) + posted tr"
  "logged l (e # tr) = (if is_log l e then 1 else 0) + logged l tr"
  by (simp_all add: acquired_def released_def posted_def logged_def)

lemma trace_counts_Nil:
  "acquired [] = 0" "released [] = 0" "posted [] = 0" "logged l [] = 0"
  by (simp_all add: acquired_def released_def posted_def logged_def)

lemmas trace_counts = trace_counts_append trace_counts_Cons trace_counts_Nil

text \<open>
  Claim C3. On every way through the handler (the response codes 4.05, 4.04, 4.15, 5.00,
  4.00 and 2.04) at most one device handle is acquired, and a handle that was acquired
  is released exactly once: the releases of a handle are as many as the acquisitions
  (\<^verbatim>\<open>edgex_free_device\<close> called with a null pointer, \<open>FreeDevice None\<close>, releases nothing).
  \<^verbatim>\<open>devsdk_post_readings\<close> is called once when the response is 2.04 and not at all
  otherwise.
\<close>

theorem handler_releases_once_and_posts_on_success:
  "case data_handler strtod get_device request response of
     (rsp, tr) \<Rightarrow>
       acquired tr \<le> 1 \<and> released tr = acquired tr \<and>
       posted tr = (if pdu_code rsp = COAP_RESPONSE_CODE 204 then 1 else 0)"
proof (cases rule: data_handler_cases [of request strtod get_device response])
  case put
  then show ?thesis by (simp add: trace_counts response_code_values)
next
  case (unrouted tr)
  with parse_path_None_trace [OF unrouted(2)] show ?thesis
    by (simp add: trace_counts response_code_values)
next
  case (absent device resource tr)
  with parse_path_Some_trace [OF absent(2)] show ?thesis
    by (simp add: trace_counts response_code_values)
next
  case (media device resource tr)
  with parse_path_Some_trace [OF media(2)] show ?thesis
    by (simp add: trace_counts response_code_values)
next
  case (kind device resource tr)
  with parse_path_Some_trace [OF kind(2)] show ?thesis
    by (simp add: trace_counts response_code_values)
next
  case (invalid device resource tr fmt)
  with parse_path_Some_trace [OF invalid(2)] show ?thesis
    by (simp add: trace_counts response_code_values)
next
  case (posted device resource tr v)
  with parse_path_Some_trace [OF posted(2)] show ?thesis
    by (simp add: trace_counts response_code_values)
qed

lemma parse_path_device_1_temp:
  "(parse_path example_registry ''a1r/device-1/temp'' :: 'd route_result) =
     (Some (device_1, temp_resource), [Log Debug ''URI %s'', GetDevice ''device-1'' True])"
  by (simp add: parse_path_def parse_fail_def strtok_def RESOURCE_SEG1_def example_registry_def
        device_1_def temp_resource_def count_resource_def label_resource_def
        switch_resource_def)

lemma parse_path_device_1_count:
  "(parse_path example_registry ''a1r/device-1/count'' :: 'd route_result) =
     (Some (device_1, count_resource), [Log Debug ''URI %s'', GetDevice ''device-1'' True])"
  by (simp add: parse_path_def parse_fail_def strtok_def RESOURCE_SEG1_def example_registry_def
        device_1_def temp_resource_def count_resource_def label_resource_def
        switch_resource_def)

lemma parse_path_device_1_switch:
  "(parse_path example_registry ''a1r/device-1/switch'' :: 'd route_result) =
     (Some (device_1, switch_resource), [Log Debug ''URI %s'', GetDevice ''device-1'' True])"
  by (simp add: parse_path_def parse_fail_def strtok_def RESOURCE_SEG1_def example_registry_def
        device_1_def temp_resource_def count_resource_def label_resource_def
        switch_resource_def)

lemma parse_path_unknown_device:
  "(parse_path example_registry ''a1r/unknown-device/temp'' :: 'd route_result) =
     (None, [Log Debug ''URI %s'', GetDevice ''unknown-device'' False,
             Log Info ''device not found: %s'', FreeDevice None])"
  by (simp add: parse_path_def parse_fail_def strtok_def RESOURCE_SEG1_def example_registry_def)

lemma read_data_int32_23:
  "(read_data_int32 ''23'' :: 'd iot_data option \<times> 'd event list) = (Some (IOT_I32 23), [])"
  by (simp add: read_data_int32_def strtol_def split_sign_def isspace_def isdigit_def
        dec_value_def digit_val_def c_str_def NUL_def INT32_STR_MAXLEN_def INT32_MIN_def
        INT32_MAX_def LONG_MIN_def LONG_MAX_def)

text \<open>
  A push of the text \<open>23\<close> to the Int32 resource \<open>count\<close>: the Int32 decoder is called,
  \<^verbatim>\<open>strtod\<close> is not.
\<close>

lemma post_count_23:
  "data_handler (undefined :: string \<Rightarrow> real strto_result) example_registry
     (post_request ''a1r/device-1/count'' (Some COAP_MEDIATYPE_TEXT_PLAIN) (Some ''23''))
     empty_response =
   (empty_response\<lparr>pdu_code := COAP_RESPONSE_CODE 204\<rparr>,
    [Log Debug ''URI %s'', GetDevice ''device-1'' True,
     PostReadings ''device-1'' ''count'' (IOT_I32 23),
     FreeDevice (Some ''device-1'')])"
  by (simp add: data_handler_def post_request_def parse_path_device_1_count read_payload_def
        read_data_int32_23 COAP_REQUEST_POST_def COAP_REQUEST_PUT_def count_resource_def
        device_1_def)

theorem handler_releases_once_and_posts_on_success_witness:
  "data_handler (undefined :: string \<Rightarrow> real strto_result) example_registry
     (post_request ''a1r/device-1/count'' (Some COAP_MEDIATYPE_TEXT_PLAIN) (Some ''23''))
     empty_response =
   (empty_response\<lparr>pdu_code := COAP_RESPONSE_CODE 204\<rparr>,
    [Log Debug ''URI %s'', GetDevice ''device-1'' True,
     PostReadings ''device-1'' ''count'' (IOT_I32 23),
     FreeDevice (Some ''device-1'')]) \<and>
   acquired [Log Debug ''URI %s'', GetDevice ''device-1'' True,
     PostReadings ''device-1'' ''count'' (IOT_I32 23),
     FreeDevice (Some ''device-1'') :: real event] = 1 \<and>
   released [Log Debug ''URI %s'', GetDevice ''device-1'' True,
     PostReadings ''device-1'' ''count'' (IOT_I32 23),
     FreeDevice (Some ''device-1'') :: real event] = 1 \<and>
   posted [Log Debug ''URI %s'', GetDevice ''device-1'' True,
     PostReadings ''device-1'' ''count'' (IOT_I32 23),
     FreeDevice (Some ''device-1'') :: real event] = 1"
  using post_count_23
    handler_releases_once_and_posts_on_success [of "undefined :: string \<Rightarrow> real strto_result"
      example_registry
      "post_request ''a1r/device-1/count'' (Some COAP_MEDIATYPE_TEXT_PLAIN) (Some ''23'')"
      empty_response]
  by (simp add: trace_counts)

text \<open>
  Claim C8. A request with the method PUT gets the response code 4.05 whatever its path,
  and the handler makes no call at all for it: no path is parsed, no device looked up,
  nothing posted or logged. The outcome depends on neither the path, the payload, the
  registry nor \<^verbatim>\<open>strtod\<close>.
\<close>

theorem put_is_rejected_before_routing:
  assumes "pdu_code request = COAP_REQUEST_PUT"
  shows "data_handler strtod get_device request response =
           (response\<lparr>pdu_code := COAP_RESPONSE_CODE 405\<rparr>, [])"
  using assms by (simp add: data_handler_def)

theorem put_is_rejected_before_routing_witness:
  "pdu_code (put_request ''a1r/device-1/temp'' (Some COAP_MEDIATYPE_TEXT_PLAIN) (Some ''23.5''))
     = COAP_REQUEST_PUT \<and>
   data_handler (undefined :: string \<Rightarrow> real strto_result) example_registry
     (put_request ''a1r/device-1/temp'' (Some COAP_MEDIATYPE_TEXT_PLAIN) (Some ''23.5''))
     empty_response =
   (empty_response\<lparr>pdu_code := COAP_RESPONSE_CODE 405\<rparr>, [])"
proof -
  have p: "pdu_code (put_request ''a1r/device-1/temp'' (Some COAP_MEDIATYPE_TEXT_PLAIN)
      (Some ''23.5'')) = COAP_REQUEST_PUT"
    by (simp add: put_request_def)
  from p put_is_rejected_before_routing
      [OF p, of "undefined :: string \<Rightarrow> real strto_result" example_registry empty_response]
  show ?thesis by simp
qed

text \<open>
  Claim C2 (as stated, false). The request below has no payload and declares the content
  format application/json for a resource of kind Float64, whose only acceptable format
  is text/plain. The claim expects 4.15; the handler skips the content-format check for
  a request without payload and answers 4.00. (No decoder is called on this way.)
\<close>

theorem absent_payload_counterexample:
  "pdu_data (post_request ''a1r/device-1/temp'' (Some COAP_MEDIATYPE_APPLICATION_JSON) None)
     = None \<and>
   res_type temp_resource = Edgex_Float64 \<and>
   COAP_MEDIATYPE_APPLICATION_JSON \<noteq> COAP_MEDIATYPE_TEXT_PLAIN \<and>
   data_handler (undefined :: string \<Rightarrow> real strto_result) example_registry
     (post_request ''a1r/device-1/temp'' (Some COAP_MEDIATYPE_APPLICATION_JSON) None)
     empty_response =
   (empty_response\<lparr>pdu_code := COAP_RESPONSE_CODE 400, pdu_data := Some MSG_PAYLOAD_INVALID\<rparr>,
    [Log Debug ''URI %s'', GetDevice ''device-1'' True, Log Info ''invalid data of len %u'',
     FreeDevice (Some ''device-1'')]) \<and>
   COAP_RESPONSE_CODE 400 \<noteq> COAP_RESPONSE_CODE 415"
  by (simp add: data_handler_def post_request_def parse_path_device_1_temp read_payload_def
        COAP_REQUEST_POST_def COAP_REQUEST_PUT_def temp_resource_def device_1_def
        COAP_MEDIATYPE_APPLICATION_JSON_def COAP_MEDIATYPE_TEXT_PLAIN_def response_code_values)

text \<open>
  Claim C2, amended. For a request without payload no content-format check is made: the
  response is never 4.15, and once the request has passed the method check and has been
  routed, the response is 4.00 with the body \<open>payload not valid\<close>, whatever the declared
  content format and the kind of the resource; nothing is posted.
\<close>

theorem absent_payload_is_bad_request:
  fixes strtod :: "string \<Rightarrow> 'd strto_result"
  shows "(pdu_data request = None \<longrightarrow>
            pdu_code (fst (data_handler strtod get_device request response))
              \<noteq> COAP_RESPONSE_CODE 415) \<and>
         (pdu_data request = None \<and> pdu_code request \<noteq> COAP_REQUEST_PUT \<and>
          parse_path get_device (pdu_uri_path request) = (Some (device, resource), tr) \<longrightarrow>
            data_handler strtod get_device request response =
              (response\<lparr>pdu_code := COAP_RESPONSE_CODE 400,
                         pdu_data := Some MSG_PAYLOAD_INVALID\<rparr>,
               tr @ [Log Info ''invalid data of len %u'', FreeDevice (Some (dev_name device))]))"
proof (intro conjI impI)
  assume "pdu_data request = None"
  then show "pdu_code (fst (data_handler strtod get_device request response))
      \<noteq> COAP_RESPONSE_CODE 415"
    by (cases rule: data_handler_cases [of request strtod get_device response])
      (simp_all add: response_code_values)
next
  assume "pdu_data request = None \<and> pdu_code request \<noteq> COAP_REQUEST_PUT \<and>
    parse_path get_device (pdu_uri_path request) = (Some (device, resource), tr)"
  then show "data_handler strtod get_device request response =
      (response\<lparr>pdu_code := COAP_RESPONSE_CODE 400, pdu_data := Some MSG_PAYLOAD_INVALID\<rparr>,
       tr @ [Log Info ''invalid data of len %u'', FreeDevice (Some (dev_name device))])"
    by (simp add: data_handler_def read_payload_def)
qed

theorem absent_payload_is_bad_request_witness:
  "pdu_data (post_request ''a1r/device-1/switch'' (Some COAP_MEDIATYPE_APPLICATION_JSON) None)
     = None \<and>
   pdu_code (post_request ''a1r/device-1/switch'' (Some COAP_MEDIATYPE_APPLICATION_JSON) None)
     \<noteq> COAP_REQUEST_PUT \<and>
   (parse_path example_registry ''a1r/device-1/switch'' :: real route_result) =
     (Some (device_1, switch_resource), [Log Debug ''URI %s'', GetDevice ''device-1'' True]) \<and>
   data_handler (undefined :: string \<Rightarrow> real strto_result) example_registry
     (post_request ''a1r/device-1/switch'' (Some COAP_MEDIATYPE_APPLICATION_JSON) None)
     empty_response =
   (empty_response\<lparr>pdu_code := COAP_RESPONSE_CODE 400, pdu_data := Some MSG_PAYLOAD_INVALID\<rparr>,
    [Log Debug ''URI %s'', GetDevice ''device-1'' True, Log Info ''invalid data of len %u'',
     FreeDevice (Some ''device-1'')])"
proof -
  let ?rq = "post_request ''a1r/device-1/switch'' (Some COAP_MEDIATYPE_APPLICATION_JSON) None"
  have a: "pdu_data ?rq = None" "pdu_code ?rq \<noteq> COAP_REQUEST_PUT"
    "pdu_uri_path ?rq = ''a1r/device-1/switch''"
    by (simp_all add: post_request_def COAP_REQUEST_POST_def COAP_REQUEST_PUT_def)
  have n: "dev_name device_1 = ''device-1''" by (simp add: device_1_def)
  show ?thesis
    using a n parse_path_device_1_switch [where ?'d = real]
      absent_payload_is_bad_request [of ?rq "undefined :: string \<Rightarrow> real strto_result"
        example_registry empty_response
        device_1 switch_resource "[Log Debug ''URI %s'', GetDevice ''device-1'' True]"]
    by simp
qed

text \<open>
  Claim C9 (as stated, false). \<open>switch\<close> is a resource of kind Bool, which the handler
  does not decode. A well-formed push to it is answered 5.00, and the handler logs that
  at error severity, with no entry at info severity. (No decoder is called on this way.)
\<close>

theorem unsupported_kind_counterexample:
  "res_type switch_resource = Edgex_Bool \<and>
   data_handler (undefined :: string \<Rightarrow> real strto_result) example_registry
     (post_request ''a1r/device-1/switch'' (Some COAP_MEDIATYPE_TEXT_PLAIN) (Some ''1''))
     empty_response =
   (empty_response\<lparr>pdu_code := COAP_RESPONSE_CODE 500\<rparr>,
    [Log Debug ''URI %s'', GetDevice ''device-1'' True,
     Log Error ''unsupported resource type %d'', FreeDevice (Some ''device-1'')]) \<and>
   logged Error [Log Debug ''URI %s'', GetDevice ''device-1'' True,
     Log Error ''unsupported resource type %d'', FreeDevice (Some ''device-1'') :: real event]
     = 1 \<and>
   logged Info [Log Debug ''URI %s'', GetDevice ''device-1'' True,
     Log Error ''unsupported resource type %d'', FreeDevice (Some ''device-1'') :: real event]
     = 0"
  by (simp add: data_handler_def post_request_def parse_path_device_1_switch read_payload_def
        COAP_REQUEST_POST_def COAP_REQUEST_PUT_def switch_resource_def device_1_def
        trace_counts)

text \<open>
  Claim C9, amended. A request answered 4.04 (malformed path, unknown device or resource)
  or 4.00 (payload absent or not decodable) is logged once at info severity and never at
  error severity; a request answered 4.05 (wrong method) or 4.15 (wrong or missing content
  format) leaves no entry at info or error severity; a request answered 5.00 (unsupported
  kind of the resource) is logged once at error severity.
\<close>

theorem failure_log_severity:
  "case data_handler strtod get_device request response of
     (rsp, tr) \<Rightarrow>
       (pdu_code rsp = COAP_RESPONSE_CODE 404 \<or> pdu_code rsp = COAP_RESPONSE_CODE 400 \<longrightarrow>
          logged Info tr = 1 \<and> logged Error tr = 0) \<and>
       (pdu_code rsp = COAP_RESPONSE_CODE 405 \<or> pdu_code rsp = COAP_RESPONSE_CODE 415 \<longrightarrow>
          logged Info tr = 0 \<and> logged Error tr = 0) \<and>
       (pdu_code rsp = COAP_RESPONSE_CODE 500 \<longrightarrow>
          logged Error tr = 1 \<and> logged Info tr = 0)"
proof (cases rule: data_handler_cases [of request strtod get_device response])
  case put
  then show ?thesis by (simp add: trace_counts response_code_values)
next
  case (unrouted tr)
  with parse_path_None_logs [OF unrouted(2)] show ?thesis
    by (simp add: trace_counts response_code_values)
next
  case (absent device resource tr)
  with parse_path_Some_trace [OF absent(2)] show ?thesis
    by (simp add: trace_counts response_code_values)
next
  case (media device resource tr)
  with parse_path_Some_trace [OF media(2)] show ?thesis
    by (simp add: trace_counts response_code_values)
next
  case (kind device resource tr)
  with parse_path_Some_trace [OF kind(2)] show ?thesis
    by (simp add: trace_counts response_code_values)
next
  case (invalid device resource tr fmt)
  with parse_path_Some_trace [OF invalid(2)] show ?thesis
    by (simp add: trace_counts response_code_values)
next
  case (posted device resource tr v)
  with parse_path_Some_trace [OF posted(2)] show ?thesis
    by (simp add: trace_counts response_code_values)
qed

theorem failure_log_severity_witness:
  "data_handler (undefined :: string \<Rightarrow> real strto_result) example_registry
     (post_request ''a1r/unknown-device/temp'' (Some COAP_MEDIATYPE_TEXT_PLAIN) (Some ''23.5''))
     empty_response =
   (empty_response\<lparr>pdu_code := COAP_RESPONSE_CODE 404\<rparr>,
    [Log Debug ''URI %s'', GetDevice ''unknown-device'' False,
     Log Info ''device not found: %s'', FreeDevice None, FreeDevice None]) \<and>
   logged Info [Log Debug ''URI %s'', GetDevice ''unknown-device'' False,
     Log Info ''device not found: %s'', FreeDevice None, FreeDevice None :: real event] = 1 \<and>
   logged Error [Log Debug ''URI %s'', GetDevice ''unknown-device'' False,
     Log Info ''device not found: %s'', FreeDevice None, FreeDevice None :: real event] = 0"
proof -
  let ?rq = "post_request ''a1r/unknown-device/temp'' (Some COAP_MEDIATYPE_TEXT_PLAIN)
    (Some ''23.5'')"
  have h: "data_handler (undefined :: string \<Rightarrow> real strto_result) example_registry ?rq
      empty_response =
     (empty_response\<lparr>pdu_code := COAP_RESPONSE_CODE 404\<rparr>,
      [Log Debug ''URI %s'', GetDevice ''unknown-device'' False,
       Log Info ''device not found: %s'', FreeDevice None, FreeDevice None])"
    by (simp add: data_handler_def post_request_def parse_path_unknown_device
          COAP_REQUEST_POST_def COAP_REQUEST_PUT_def)
  show ?thesis
    using h failure_log_severity
      [of "undefined :: string \<Rightarrow> real strto_result" example_registry ?rq empty_response]
    by (simp add: response_code_values)
qed

subsection \<open>Float64 decoder\<close>

lemma float64_too_long:
  assumes "FLOAT64_STR_MAXLEN < length data"
  shows "read_data_float64 strtod data = (None, [Log Info ''invalid float64 of len %u''])"
  using assms by (simp add: read_data_float64_def)

lemma float64_errno_or_rest:
  assumes "sr_errno (strtod (c_str data)) \<noteq> 0 \<or> sr_rest (strtod (c_str data)) \<noteq> []"
  shows "read_data_float64 strtod data = (None, [Log Info ''invalid float64 of len %u''])"
  using assms by (auto simp: read_data_float64_def Let_def)

text \<open>
  Claim C6 (the code departs from it). The buffer of the three bytes \<open>1\<close>, \<open>NUL\<close>, \<open>x\<close> is
  within the length limit. \<^verbatim>\<open>strtod\<close> reads the C string \<open>1\<close>, which ends at the byte 0 of
  the buffer, and stops there; \<^verbatim>\<open>*endptr\<close> is that byte, so the test for a complete parse
  passes and the decoder returns the value of \<open>1\<close>, although two bytes of the buffer were
  never parsed. (A buffer longer than 24 bytes, a parse that stops before the first byte
  0, and a conversion that sets \<^verbatim>\<open>errno\<close> are refused: \<open>float64_too_long\<close>,
  \<open>float64_errno_or_rest\<close>.)
\<close>

theorem float64_accepts_bytes_after_NUL:
  assumes "strtod ''1'' = \<lparr>sr_value = one, sr_rest = [], sr_errno = 0\<rparr>"
  shows "c_str [CHR ''1'', NUL, CHR ''x''] = ''1'' \<and>
         length [CHR ''1'', NUL, CHR ''x''] \<le> FLOAT64_STR_MAXLEN \<and>
         read_data_float64 strtod [CHR ''1'', NUL, CHR ''x''] = (Some (IOT_F64 one), [])"
  using assms by (simp add: read_data_float64_def c_str_def NUL_def FLOAT64_STR_MAXLEN_def)

text \<open>
  The hypothesis is what \<^verbatim>\<open>strtod\<close> does on the text \<open>1\<close>: the value one, nothing left,
  \<^verbatim>\<open>errno\<close> untouched. Below it is met by a routine with that outcome.
\<close>

theorem float64_accepts_bytes_after_NUL_witness:
  "(\<lambda>s. \<lparr>sr_value = 1 :: real, sr_rest = [], sr_errno = 0\<rparr>) ''1'' =
     \<lparr>sr_value = 1, sr_rest = [], sr_errno = 0\<rparr> \<and>
   read_data_float64 (\<lambda>s. \<lparr>sr_value = 1 :: real, sr_rest = [], sr_errno = 0\<rparr>)
     [CHR ''1'', NUL, CHR ''x''] = (Some (IOT_F64 1), [])"
  using float64_accepts_bytes_after_NUL
    [where strtod = "\<lambda>s. \<lparr>sr_value = 1 :: real, sr_rest = [], sr_errno = 0\<rparr>" and one = 1]
  by simp

text \<open>
  Claim C10 (as stated, false). For the empty buffer the decoder calls \<^verbatim>\<open>strtod\<close> on the
  empty text, where no conversion can be performed, and refuses the buffer whenever
  \<^verbatim>\<open>errno\<close> is set afterwards. With a library that reports the missing conversion by
  \<^verbatim>\<open>EINVAL\<close>, as POSIX permits, the decoder reports a decode failure for the empty buffer
  and returns no value.
\<close>

theorem float64_empty_buffer_counterexample:
  "(no_conversion EINVAL [] :: real strto_result) =
     \<lparr>sr_value = 0, sr_rest = [], sr_errno = EINVAL\<rparr> \<and>
   EINVAL \<noteq> 0 \<and>
   read_data_float64 (no_conversion EINVAL :: string \<Rightarrow> real strto_result) [] =
     (None, [Log Info ''invalid float64 of len %u''])"
  by (simp add: read_data_float64_def c_str_def no_conversion_def EINVAL_def)

text \<open>
  Claim C10, amended. For the empty buffer the decoder calls \<^verbatim>\<open>strtod\<close> on the empty text,
  on which \<^verbatim>\<open>strtod\<close> performs no conversion. Where that call leaves \<^verbatim>\<open>errno\<close> at zero, the
  decoder succeeds, returns the value 0.0 and logs nothing; where it sets \<^verbatim>\<open>errno\<close>, the
  decoder reports a decode failure.
\<close>

theorem float64_empty_buffer:
  fixes strtod :: "string \<Rightarrow> 'd::zero strto_result"
  assumes "strtod [] = no_conversion e []"
  shows "read_data_float64 strtod [] =
           (if e = 0 then (Some (IOT_F64 0), [])
            else (None, [Log Info ''invalid float64 of len %u'']))"
  using assms by (simp add: read_data_float64_def c_str_def no_conversion_def)

theorem float64_empty_buffer_witness:
  "read_data_float64 (no_conversion 0 :: string \<Rightarrow> real strto_result) [] =
     (Some (IOT_F64 0), []) \<and>
   read_data_float64 (no_conversion EINVAL :: string \<Rightarrow> real strto_result) [] =
     (None, [Log Info ''invalid float64 of len %u''])"
  using float64_empty_buffer [where strtod = "no_conversion 0 :: string \<Rightarrow> real strto_result"
      and e = 0]
    float64_empty_buffer [where strtod = "no_conversion EINVAL :: string \<Rightarrow> real strto_result"
      and e = EINVAL]
  by (simp add: EINVAL_def)

subsection \<open>Driver initialisation\<close>

lemma driver_config_lookup:
  "driver_config configured COAP_BIND_ADDR_KEY =
     Some (case configured COAP_BIND_ADDR_KEY of None \<Rightarrow> ''0.0.0.0'' | Some a \<Rightarrow> a)"
  "driver_config configured SECURITY_MODE_KEY =
     Some (case configured SECURITY_MODE_KEY of None \<Rightarrow> ''NoSec'' | Some m \<Rightarrow> m)"
  "driver_config configured PSK_KEY_KEY =
     Some (case configured PSK_KEY_KEY of None \<Rightarrow> [] | Some k \<Rightarrow> k)"
  by (simp_all add: driver_config_def driver_map_def map_add_def COAP_BIND_ADDR_KEY_def
        SECURITY_MODE_KEY_def PSK_KEY_KEY_def split: option.splits)

lemma coap_init_null_key_text:
  assumes "config SECURITY_MODE_KEY = Some ''PSK''" "config PSK_KEY_KEY = None"
  shows "coap_init from_base64 config driver = (Fault, [])"
  using assms by (simp add: coap_init_def find_security_mode_def)

text \<open>
  Claim C7. With the configuration as \<^verbatim>\<open>coap_init\<close> receives it (each key configured or at
  its default): a security mode text other than \<open>PSK\<close> and \<open>NoSec\<close> makes \<^verbatim>\<open>coap_init\<close>
  return false after an error entry, with no key; the mode \<open>PSK\<close> with the key text not
  configured or configured empty makes it return false after an error entry, with no
  key; the mode \<open>NoSec\<close> (configured, or by default) goes on with no key and, the bind
  address being there, returns true.
\<close>

theorem coap_init_security_mode:
  fixes from_base64 :: "string \<Rightarrow> 'k option"
  shows
    "(configured SECURITY_MODE_KEY = Some mode_text \<and> mode_text \<noteq> ''PSK'' \<and>
      mode_text \<noteq> ''NoSec'' \<longrightarrow>
        coap_init from_base64 (driver_config configured) driver =
          (Returns (False, driver\<lparr>security_mode := SECURITY_MODE_UNKNOWN, psk_key := None\<rparr>),
           [(Error, ''Unknown security mode'')])) \<and>
     (configured SECURITY_MODE_KEY = Some ''PSK'' \<and>
      (configured PSK_KEY_KEY = None \<or> configured PSK_KEY_KEY = Some []) \<longrightarrow>
        coap_init from_base64 (driver_config configured) driver =
          (Returns (False, driver\<lparr>security_mode := SECURITY_MODE_PSK, psk_key := None\<rparr>),
           [(Error, ''PSK key not in configuration'')])) \<and>
     (configured SECURITY_MODE_KEY = None \<or> configured SECURITY_MODE_KEY = Some ''NoSec'' \<longrightarrow>
        (\<exists>addr. coap_init from_base64 (driver_config configured) driver =
          (Returns (True, driver\<lparr>security_mode := SECURITY_MODE_NOSEC, psk_key := None,
                                  coap_bind_addr := Some addr\<rparr>),
           [(Debug, ''Init complete'')])))"
proof (intro conjI impI)
  assume "configured SECURITY_MODE_KEY = Some mode_text \<and> mode_text \<noteq> ''PSK'' \<and>
    mode_text \<noteq> ''NoSec''"
  then show "coap_init from_base64 (driver_config configured) driver =
      (Returns (False, driver\<lparr>security_mode := SECURITY_MODE_UNKNOWN, psk_key := None\<rparr>),
       [(Error, ''Unknown security mode'')])"
    by (simp add: coap_init_def driver_config_lookup find_security_mode_def)
next
  assume "configured SECURITY_MODE_KEY = Some ''PSK'' \<and>
    (configured PSK_KEY_KEY = None \<or> configured PSK_KEY_KEY = Some [])"
  then show "coap_init from_base64 (driver_config configured) driver =
      (Returns (False, driver\<lparr>security_mode := SECURITY_MODE_PSK, psk_key := None\<rparr>),
       [(Error, ''PSK key not in configuration'')])"
    by (auto simp: coap_init_def driver_config_lookup find_security_mode_def)
next
  assume "configured SECURITY_MODE_KEY = None \<or> configured SECURITY_MODE_KEY = Some ''NoSec''"
  then show "\<exists>addr. coap_init from_base64 (driver_config configured) driver =
      (Returns (True, driver\<lparr>security_mode := SECURITY_MODE_NOSEC, psk_key := None,
                              coap_bind_addr := Some addr\<rparr>),
       [(Debug, ''Init complete'')])"
    by (auto simp: coap_init_def driver_config_lookup find_security_mode_def read_bind_addr_def)
qed

theorem coap_init_security_mode_witness:
  "coap_init Some (driver_config [SECURITY_MODE_KEY \<mapsto> ''DTLS'']) blank_driver =
     (Returns (False, blank_driver\<lparr>security_mode := SECURITY_MODE_UNKNOWN, psk_key := None\<rparr>),
      [(Error, ''Unknown security mode'')]) \<and>
   coap_init Some (driver_config [SECURITY_MODE_KEY \<mapsto> ''PSK'']) blank_driver =
     (Returns (False, blank_driver\<lparr>security_mode := SECURITY_MODE_PSK, psk_key := None\<rparr>),
      [(Error, ''PSK key not in configuration'')]) \<and>
   coap_init Some (driver_config Map.empty) blank_driver =
     (Returns (True, blank_driver\<lparr>security_mode := SECURITY_MODE_NOSEC, psk_key := None,
                                   coap_bind_addr := Some ''0.0.0.0''\<rparr>),
      [(Debug, ''Init complete'')])"
proof -
  have k: "SECURITY_MODE_KEY \<noteq> PSK_KEY_KEY"
    by (simp add: SECURITY_MODE_KEY_def PSK_KEY_KEY_def)
  have a: "coap_init Some (driver_config [SECURITY_MODE_KEY \<mapsto> ''DTLS'']) blank_driver =
     (Returns (False, blank_driver\<lparr>security_mode := SECURITY_MODE_UNKNOWN, psk_key := None\<rparr>),
      [(Error, ''Unknown security mode'')])"
    using coap_init_security_mode [of "[SECURITY_MODE_KEY \<mapsto> ''DTLS'']" "''DTLS''" Some
        blank_driver]
    by simp
  have b: "coap_init Some (driver_config [SECURITY_MODE_KEY \<mapsto> ''PSK'']) blank_driver =
     (Returns (False, blank_driver\<lparr>security_mode := SECURITY_MODE_PSK, psk_key := None\<rparr>),
      [(Error, ''PSK key not in configuration'')])"
    using k coap_init_security_mode [of "[SECURITY_MODE_KEY \<mapsto> ''PSK'']" "''PSK''" Some
        blank_driver]
    by simp
  have c: "coap_init Some (driver_config Map.empty) blank_driver =
     (Returns (True, blank_driver\<lparr>security_mode := SECURITY_MODE_NOSEC, psk_key := None,
                                   coap_bind_addr := Some ''0.0.0.0''\<rparr>),
      [(Debug, ''Init complete'')])"
    by (simp add: coap_init_def driver_config_lookup find_security_mode_def read_bind_addr_def)
  from a b c show ?thesis by simp
qed

subsection \<open>The scenarios of the specification\<close>

text \<open>
  Scenarios 1 to 3 of the specification, for any \<^verbatim>\<open>strtod\<close> that reads the text \<open>23.5\<close>
  to its end without error and stops in \<open>23.5x\<close> before the end.
\<close>

lemma post_23_5:
  assumes "strtod ''23.5'' = \<lparr>sr_value = v, sr_rest = [], sr_errno = 0\<rparr>"
  shows "data_handler strtod example_registry
     (post_request ''a1r/device-1/temp'' (Some COAP_MEDIATYPE_TEXT_PLAIN) (Some ''23.5''))
     empty_response =
   (empty_response\<lparr>pdu_code := COAP_RESPONSE_CODE 204\<rparr>,
    [Log Debug ''URI %s'', GetDevice ''device-1'' True,
     PostReadings ''device-1'' ''temp'' (IOT_F64 v),
     FreeDevice (Some ''device-1'')])"
  using assms
  by (simp add: data_handler_def post_request_def parse_path_device_1_temp read_payload_def
        read_data_float64_def c_str_def NUL_def FLOAT64_STR_MAXLEN_def
        COAP_REQUEST_POST_def COAP_REQUEST_PUT_def temp_resource_def device_1_def)

lemma post_23_5x:
  assumes "sr_rest (strtod ''23.5x'') \<noteq> []"
  shows "data_handler strtod example_registry
     (post_request ''a1r/device-1/temp'' (Some COAP_MEDIATYPE_TEXT_PLAIN) (Some ''23.5x''))
     empty_response =
   (empty_response\<lparr>pdu_code := COAP_RESPONSE_CODE 400, pdu_data := Some ''payload not valid''\<rparr>,
    [Log Debug ''URI %s'', GetDevice ''device-1'' True, Log Info ''invalid float64 of len %u'',
     FreeDevice (Some ''device-1'')])"
  using assms
  by (simp add: data_handler_def post_request_def parse_path_device_1_temp read_payload_def
        read_data_float64_def c_str_def NUL_def FLOAT64_STR_MAXLEN_def
        COAP_REQUEST_POST_def COAP_REQUEST_PUT_def temp_resource_def device_1_def
        MSG_PAYLOAD_INVALID_def)

lemma post_json_to_float64:
  "data_handler strtod example_registry
     (post_request ''a1r/device-1/temp'' (Some COAP_MEDIATYPE_APPLICATION_JSON) (Some ''23.5''))
     empty_response =
   (empty_response\<lparr>pdu_code := COAP_RESPONSE_CODE 415\<rparr>,
    [Log Debug ''URI %s'', GetDevice ''device-1'' True, FreeDevice (Some ''device-1'')])"
  by (simp add: data_handler_def post_request_def parse_path_device_1_temp read_payload_def
        COAP_REQUEST_POST_def COAP_REQUEST_PUT_def temp_resource_def device_1_def
        COAP_MEDIATYPE_APPLICATION_JSON_def COAP_MEDIATYPE_TEXT_PLAIN_def)

lemma post_with_empty_segments:
  "fst (parse_path example_registry ''a1r//device-1/temp/'' :: real route_result) =
     Some (device_1, temp_resource)"
  by (simp add: parse_path_def parse_fail_def strtok_def RESOURCE_SEG1_def example_registry_def
        device_1_def temp_resource_def count_resource_def label_resource_def
        switch_resource_def)

end
